theory Spec2Isabelle
  imports Complex_Main
begin

section \<open>JavaScript values, exceptions and effects\<close>

text \<open>
  Values that cross the untyped boundaries of the program: what \<^verbatim>\<open>JSON.parse\<close> returns and
  what the properties of the object returned by \<^verbatim>\<open>exifr.parse\<close> hold. TypeScript's
  \<^verbatim>\<open>as AIAnalysisResult\<close> and the \<^verbatim>\<open>any\<close> of the parser output are erased at run time, so the
  model keeps the dynamic value. Numbers are only copied and compared with literals; they are
  reals here. An object is its list of properties in insertion order. \<^verbatim>\<open>undefined\<close> is
  \<open>None\<close> of an option type wherever a value may be missing.
\<close>

datatype jsval =
    JNull
  | JBool bool
  | JNum real
  | JStr string
  | JArr "jsval list"
  | JObj "(string \<times> jsval) list"
  | JDate int

text \<open>JavaScript truthiness, as used by \<^verbatim>\<open>cond ? a : b\<close> and \<^verbatim>\<open>if (x)\<close>.\<close>

fun truthy :: "jsval \<Rightarrow> bool" where
  "truthy JNull = False"
| "truthy (JBool b) = b"
| "truthy (JNum x) = (x \<noteq> 0)"
| "truthy (JStr s) = (s \<noteq> [])"
| "truthy (JArr xs) = True"
| "truthy (JObj kvs) = True"
| "truthy (JDate t) = True"

text \<open>
  \<open>Error msg\<close> is \<^verbatim>\<open>new Error(msg)\<close> thrown by the program itself; \<open>Foreign tag\<close> is anything
  thrown or rejected by the platform or a library (a \<^verbatim>\<open>SyntaxError\<close> of \<^verbatim>\<open>JSON.parse\<close>, a
  network failure, a reader or image error event).
\<close>

datatype exn = Error string | Foreign string

text \<open>
  An object URL is the string \<^verbatim>\<open>blob:...\<close> that \<^verbatim>\<open>URL.createObjectURL\<close> returns: never empty
  (so always truthy) and different for every call. The model numbers them. A \<^verbatim>\<open>File\<close> is
  used for its name only; its content shows in the outcomes of the parser and the reader. A
  \<^verbatim>\<open>Blob\<close> is its bytes.
\<close>

datatype url = BlobUrl nat

datatype File = File (name: string)

type_synonym Blob = "nat list"

datatype url_source = OfFile File | OfBlob Blob

text \<open>
  The observable effects of the handlers, in the order they happen: \<^verbatim>\<open>console.error\<close> with its
  optional label and the error, the request of \<^verbatim>\<open>generateContent\<close> (API key, model name, MIME
  type and image data; the instruction text and the response schema are constants of the
  source and are left out), \<^verbatim>\<open>URL.createObjectURL\<close> with the URL it returned and its argument,
  \<^verbatim>\<open>URL.revokeObjectURL\<close>, the click on the download link (its \<^verbatim>\<open>href\<close> and \<^verbatim>\<open>download\<close>
  name) and \<^verbatim>\<open>alert\<close>.
\<close>

datatype effect =
    ConsoleError "string option" exn
  | GenerateContent string string string "string option"
  | CreateObjectURL url url_source
  | RevokeObjectURL url
  | DownloadClick url string
  | Alert string

text \<open>
  \<^verbatim>\<open>try { body } catch (error) { handler }\<close>: a computation is the list of effects it performed and
  either the exception it threw (\<open>Inl\<close>) or the value it returned (\<open>Inr\<close>).
\<close>

definition try_catch ::
  "effect list \<times> (exn + 'a) \<Rightarrow> (exn \<Rightarrow> effect list \<times> (exn + 'a)) \<Rightarrow> effect list \<times> (exn + 'a)" where
  "try_catch body handler =
     (case body of
        (fx, Inr v) \<Rightarrow> (fx, Inr v)
      | (fx, Inl e) \<Rightarrow> (case handler e of (fx', r) \<Rightarrow> (fx @ fx', r)))"

text \<open>
  What the program takes from its runtime: the environment variable \<^verbatim>\<open>process.env.API_KEY\<close>,
  the builtin \<^verbatim>\<open>JSON.parse\<close> (which throws on malformed text) and
  \<^verbatim>\<open>new Date(v).toLocaleString()\<close>.
\<close>

record runtime =
  api_key :: "string option"
  json_parse :: "string \<Rightarrow> exn + jsval"
  date_toLocaleString :: "jsval \<Rightarrow> string"

section \<open>services/geminiService.ts\<close>

datatype GoogleGenAI = GoogleGenAI (apiKey: string)

definition getAiClient :: "runtime \<Rightarrow> exn + GoogleGenAI" where
  "getAiClient rt =
     (case api_key rt of
        None \<Rightarrow> Inl (Error ''API Key not found in environment variables'')
      | Some k \<Rightarrow>
          if k = [] then Inl (Error ''API Key not found in environment variables'')
          else Inr (GoogleGenAI k))"

text \<open>
  How \<^verbatim>\<open>ai.models.generateContent\<close> settles: the promise rejects, or it resolves with a
  response whose \<^verbatim>\<open>text\<close> is a string or \<^verbatim>\<open>undefined\<close>.
\<close>

datatype service_outcome = Rejects exn | Responds "string option"

text \<open>The \<^verbatim>\<open>required\<close> list of the response schema sent with the request.\<close>

definition required_fields :: "string list" where
  "required_fields =
     [''objects'', ''peopleCount'', ''sceneType'', ''imageCategory'', ''dominantColors'',
      ''faceEmotion'', ''isSafe'', ''authenticity'', ''ocrText'']"

definition fallback :: jsval where
  "fallback =
     JObj [(''objects'', JArr []),
           (''peopleCount'', JNum 0),
           (''sceneType'', JStr ''Unknown''),
           (''imageCategory'', JStr ''Other''),
           (''dominantColors'', JArr []),
           (''faceEmotion'', JStr ''None''),
           (''isSafe'', JBool True),
           (''authenticity'',
              JObj [(''isLikelyEdited'', JBool False),
                    (''reason'', JStr ''Analysis failed''),
                    (''score'', JNum 0)]),
           (''ocrText'', JStr '''')]"

text \<open>The body of the \<^verbatim>\<open>try\<close> block of \<^verbatim>\<open>analyzeImageWithGemini\<close>.\<close>

definition analyze_body ::
  "runtime \<Rightarrow> service_outcome \<Rightarrow> string option \<Rightarrow> effect list \<times> (exn + jsval)" where
  "analyze_body rt svc base64Image =
     (case getAiClient rt of
        Inl e \<Rightarrow> ([], Inl e)
      | Inr ai \<Rightarrow>
          (let sent = [GenerateContent (apiKey ai) ''gemini-3-flash-preview'' ''image/jpeg'' base64Image] in
           case svc of
             Rejects e \<Rightarrow> (sent, Inl e)
           | Responds None \<Rightarrow> (sent, Inl (Error ''No response text from Gemini''))
           | Responds (Some t) \<Rightarrow>
               if t \<noteq> [] then
                 (case json_parse rt t of
                    Inl e \<Rightarrow> (sent, Inl e)
                  | Inr result \<Rightarrow> (sent, Inr result))
               else (sent, Inl (Error ''No response text from Gemini''))))"

definition analyzeImageWithGemini ::
  "runtime \<Rightarrow> service_outcome \<Rightarrow> string option \<Rightarrow> effect list \<times> (exn + jsval)" where
  "analyzeImageWithGemini rt svc base64Image =
     try_catch (analyze_body rt svc base64Image)
       (\<lambda>error. ([ConsoleError (Some ''Gemini Analysis Error:'') error], Inr fallback))"

text \<open>
  The shape the schema asks the service for, used to state what the program does not check:
  a value has a field when it is an object with a property of that name.
\<close>

fun has_field :: "jsval \<Rightarrow> string \<Rightarrow> bool" where
  "has_field (JObj kvs) k = (k \<in> fst ` set kvs)"
| "has_field v k = False"

definition has_required_fields :: "jsval \<Rightarrow> bool" where
  "has_required_fields v = list_all (has_field v) required_fields"

section \<open>services/imageService.ts\<close>

text \<open>
  The object returned by \<^verbatim>\<open>exifr.parse\<close> is read by property name; a property that is not
  there reads as \<^verbatim>\<open>undefined\<close>. The call throws, returns \<^verbatim>\<open>undefined\<close>, or returns an object.
\<close>

type_synonym exifr_output = "string \<Rightarrow> jsval option"

datatype exifr_outcome = ParseThrows exn | ParseReturns "exifr_output option"

record ExifData =
  make' :: "jsval option"
  model :: "jsval option"
  dateTimeOriginal :: "string option"
  exposureTime :: "jsval option"
  fNumber :: "jsval option"
  iso :: "jsval option"
  focalLength :: "jsval option"
  latitude :: "jsval option"
  longitude :: "jsval option"
  software :: "jsval option"
  width :: "jsval option"
  height :: "jsval option"

definition extract_body :: "runtime \<Rightarrow> exifr_outcome \<Rightarrow> effect list \<times> (exn + ExifData option)" where
  "extract_body rt parsed =
     (case parsed of
        ParseThrows e \<Rightarrow> ([], Inl e)
      | ParseReturns None \<Rightarrow> ([], Inr None)
      | ParseReturns (Some output) \<Rightarrow>
          ([], Inr (Some
            \<lparr> make' = output ''Make'',
              model = output ''Model'',
              dateTimeOriginal =
                (case output ''DateTimeOriginal'' of
                   None \<Rightarrow> None
                 | Some d \<Rightarrow> if truthy d then Some (date_toLocaleString rt d) else None),
              exposureTime = output ''ExposureTime'',
              fNumber = output ''FNumber'',
              iso = output ''ISO'',
              focalLength = output ''FocalLength'',
              latitude = output ''latitude'',
              longitude = output ''longitude'',
              software = output ''Software'',
              width = output ''ExifImageWidth'',
              height = output ''ExifImageHeight'' \<rparr>)))"

definition extractExifData :: "runtime \<Rightarrow> exifr_outcome \<Rightarrow> effect list \<times> (exn + ExifData option)" where
  "extractExifData rt parsed =
     try_catch (extract_body rt parsed)
       (\<lambda>error. ([ConsoleError (Some ''Failed to extract EXIF'') error], Inr None))"

text \<open>
  \<^verbatim>\<open>cleanImageMetadata\<close>: the image fails to load (\<^verbatim>\<open>onerror\<close>), or it loads and then
  \<^verbatim>\<open>getContext('2d')\<close> gives a context or \<^verbatim>\<open>null\<close>, and \<^verbatim>\<open>toBlob\<close> hands its callback a blob
  or \<^verbatim>\<open>null\<close>.
\<close>

datatype image_outcome = ImgOnError exn | ImgOnLoad bool "Blob option"

definition cleanImageMetadata :: "url \<Rightarrow> image_outcome \<Rightarrow> exn + Blob option" where
  "cleanImageMetadata imageUrl img =
     (case img of
        ImgOnError err \<Rightarrow> Inl err
      | ImgOnLoad has_ctx blob \<Rightarrow>
          if \<not> has_ctx then Inl (Error ''Could not get canvas context'')
          else Inr blob)"

text \<open>\<^verbatim>\<open>s.split(',')\<close> and reading an index of the resulting array.\<close>

fun split_on :: "char \<Rightarrow> string \<Rightarrow> string list" where
  "split_on sep [] = [[]]"
| "split_on sep (c # cs) =
     (if c = sep then [] # split_on sep cs
      else (case split_on sep cs of
              [] \<Rightarrow> [[c]]
            | p # ps \<Rightarrow> (c # p) # ps))"

definition index_opt :: "'a list \<Rightarrow> nat \<Rightarrow> 'a option" where
  "index_opt xs i = (if i < length xs then Some (xs ! i) else None)"

text \<open>
  \<^verbatim>\<open>fileToBase64\<close>: the reader fires \<^verbatim>\<open>onerror\<close>, or \<^verbatim>\<open>onload\<close> with a result that is a string
  (\<open>Some\<close>) or not.
\<close>

datatype reader_outcome = ReaderOnError exn | ReaderOnLoad "string option"

definition fileToBase64 :: "reader_outcome \<Rightarrow> exn + string option" where
  "fileToBase64 rd =
     (case rd of
        ReaderOnError e \<Rightarrow> Inl e
      | ReaderOnLoad None \<Rightarrow> Inl (Error ''Failed to convert file to base64'')
      | ReaderOnLoad (Some result) \<Rightarrow> Inr (index_opt (split_on CHR '','' result) 1))"

section \<open>App.tsx\<close>

text \<open>
  \<^verbatim>\<open>Date.now().toString()\<close>: the clock reading is an integer number of milliseconds, printed
  in decimal, with a minus sign when negative.
\<close>

definition digit_char :: "nat \<Rightarrow> char" where
  "digit_char d = char_of (48 + d)"

fun dec_digits :: "nat \<Rightarrow> string" where
  "dec_digits n = (if n < 10 then [digit_char n] else dec_digits (n div 10) @ [digit_char (n mod 10)])"

declare dec_digits.simps [simp del]

definition toString :: "int \<Rightarrow> string" where
  "toString i = (if i < 0 then CHR ''-'' # dec_digits (nat (- i)) else dec_digits (nat i))"

text \<open>Reading a decimal numeral back, to show that printing loses nothing.\<close>

definition digit_val :: "char \<Rightarrow> nat" where
  "digit_val c = of_char c - 48"

definition dec_value :: "string \<Rightarrow> nat" where
  "dec_value s = foldl (\<lambda>a c. 10 * a + digit_val c) 0 s"

text \<open>
  \<^verbatim>\<open>ProcessedImage\<close> of the types file. \<^verbatim>\<open>aiAnalysis\<close> holds whatever the analysis returned, with
  \<open>JNull\<close> for \<^verbatim>\<open>null\<close>; \<^verbatim>\<open>error\<close> is \<open>None\<close> for \<^verbatim>\<open>undefined\<close>.
\<close>

record ProcessedImage =
  id' :: string
  file' :: File
  previewUrl :: url
  exif :: "ExifData option"
  aiAnalysis :: jsval
  isProcessing :: bool
  error :: "string option"

text \<open>
  An \<^verbatim>\<open>async\<close> handler runs until its next \<^verbatim>\<open>await\<close> and resumes when the awaited promise
  settles. A task is a started handler with the point where it waits and what its closure holds.
\<close>

datatype task =
    AwaitExif File
  | AwaitEncode File
  | AwaitAnalyze "string option"
  | AwaitClean url string
  | Finished

text \<open>
  The component state (\<^verbatim>\<open>data\<close>, \<^verbatim>\<open>showCamera\<close>), the handlers in flight, the browser's supply
  of fresh object URLs and the effects so far.
\<close>

record world =
  data :: "ProcessedImage option"
  showCamera :: bool
  tasks :: "task list"
  next_url :: nat
  trace :: "effect list"

definition init :: world where
  "init = \<lparr> data = None, showCamera = False, tasks = [], next_url = 0, trace = [] \<rparr>"

text \<open>The three functional updates passed to \<^verbatim>\<open>setData\<close> by \<^verbatim>\<open>handleImageSelect\<close>.\<close>

definition merge_exif :: "ExifData option \<Rightarrow> ProcessedImage option \<Rightarrow> ProcessedImage option" where
  "merge_exif exifData prev =
     (case prev of None \<Rightarrow> None | Some p \<Rightarrow> Some (p\<lparr>exif := exifData\<rparr>))"

definition merge_analysis :: "jsval \<Rightarrow> ProcessedImage option \<Rightarrow> ProcessedImage option" where
  "merge_analysis aiResult prev =
     (case prev of None \<Rightarrow> None | Some p \<Rightarrow> Some (p\<lparr>aiAnalysis := aiResult, isProcessing := False\<rparr>))"

definition merge_error :: "ProcessedImage option \<Rightarrow> ProcessedImage option" where
  "merge_error prev =
     (case prev of
        None \<Rightarrow> None
      | Some p \<Rightarrow> Some (p\<lparr>isProcessing := False, error := Some ''Failed to process image fully.''\<rparr>))"

definition task_at :: "world \<Rightarrow> nat \<Rightarrow> task" where
  "task_at w tid = (if tid < length (tasks w) then tasks w ! tid else Finished)"

definition set_task :: "nat \<Rightarrow> task \<Rightarrow> world \<Rightarrow> world" where
  "set_task tid t w = w\<lparr>tasks := (tasks w)[tid := t]\<rparr>"

text \<open>The \<^verbatim>\<open>catch\<close> block of \<^verbatim>\<open>handleImageSelect\<close>; the handler ends there.\<close>

definition select_catch :: "nat \<Rightarrow> exn \<Rightarrow> world \<Rightarrow> world" where
  "select_catch tid err w =
     set_task tid Finished
       (w\<lparr>trace := trace w @ [ConsoleError None err], data := merge_error (data w)\<rparr>)"

text \<open>
  What can happen next: a file is handed to \<^verbatim>\<open>handleImageSelect\<close> (with the clock reading of
  that moment), the close button calls \<^verbatim>\<open>setData(null)\<close>, the camera is opened or closed, the
  privacy button calls \<^verbatim>\<open>handlePrivacyClean\<close>, or a promise awaited by task \<open>tid\<close> settles.
\<close>

datatype event =
    Select File int
  | Discard
  | OpenCamera
  | CloseCamera
  | ExifSettles nat exifr_outcome
  | EncodeSettles nat reader_outcome
  | AnalyzeSettles nat service_outcome
  | PrivacyClean
  | CleanSettles nat image_outcome

fun step :: "runtime \<Rightarrow> event \<Rightarrow> world \<Rightarrow> world" where
  "step rt (Select f now) w =
     (let previewUrl = BlobUrl (next_url w);
          newImage = \<lparr> id' = toString now, file' = f, previewUrl = previewUrl, exif = None,
                       aiAnalysis = JNull, isProcessing = True, error = None \<rparr>
      in w\<lparr> data := Some newImage,
            showCamera := False,
            tasks := tasks w @ [AwaitExif f],
            next_url := Suc (next_url w),
            trace := trace w @ [CreateObjectURL previewUrl (OfFile f)] \<rparr>)"
| "step rt Discard w = w\<lparr>data := None\<rparr>"
| "step rt OpenCamera w = w\<lparr>showCamera := True\<rparr>"
| "step rt CloseCamera w = w\<lparr>showCamera := False\<rparr>"
| "step rt (ExifSettles tid parsed) w =
     (case task_at w tid of
        AwaitExif f \<Rightarrow>
          (case extractExifData rt parsed of
             (fx, Inl err) \<Rightarrow> select_catch tid err (w\<lparr>trace := trace w @ fx\<rparr>)
           | (fx, Inr exifData) \<Rightarrow>
               set_task tid (AwaitEncode f)
                 (w\<lparr>trace := trace w @ fx, data := merge_exif exifData (data w)\<rparr>))
      | _ \<Rightarrow> w)"
| "step rt (EncodeSettles tid rd) w =
     (case task_at w tid of
        AwaitEncode f \<Rightarrow>
          (case fileToBase64 rd of
             Inl err \<Rightarrow> select_catch tid err w
           | Inr base64 \<Rightarrow> set_task tid (AwaitAnalyze base64) w)
      | _ \<Rightarrow> w)"
| "step rt (AnalyzeSettles tid svc) w =
     (case task_at w tid of
        AwaitAnalyze base64 \<Rightarrow>
          (case analyzeImageWithGemini rt svc base64 of
             (fx, Inl err) \<Rightarrow> select_catch tid err (w\<lparr>trace := trace w @ fx\<rparr>)
           | (fx, Inr aiResult) \<Rightarrow>
               set_task tid Finished
                 (w\<lparr>trace := trace w @ fx, data := merge_analysis aiResult (data w)\<rparr>))
      | _ \<Rightarrow> w)"
| "step rt PrivacyClean w =
     (case data w of
        None \<Rightarrow> w
      | Some d \<Rightarrow> w\<lparr>tasks := tasks w @ [AwaitClean (previewUrl d) (name (file' d))]\<rparr>)"
| "step rt (CleanSettles tid img) w =
     (case task_at w tid of
        AwaitClean imageUrl fileName \<Rightarrow>
          (case cleanImageMetadata imageUrl img of
             Inl e \<Rightarrow>
               set_task tid Finished (w\<lparr>trace := trace w @ [Alert ''Failed to create clean image.'']\<rparr>)
           | Inr None \<Rightarrow> set_task tid Finished w
           | Inr (Some blob) \<Rightarrow>
               (let u = BlobUrl (next_url w) in
                set_task tid Finished
                  (w\<lparr> next_url := Suc (next_url w),
                       trace := trace w @ [CreateObjectURL u (OfBlob blob),
                                           DownloadClick u (''clean_'' @ fileName),
                                           RevokeObjectURL u] \<rparr>)))
      | _ \<Rightarrow> w)"

text \<open>
  The source calls \<^verbatim>\<open>analyzeImageWithGemini\<close> as soon as the encoding is there and then awaits it;
  \<open>step\<close> lists the effects of that call (the request, the log of a failure) at the moment the
  call settles, so they come later in the trace than in the browser. Without a credential the
  call settles at once in the browser: those runs are the ones where \<open>AnalyzeSettles\<close> directly
  follows \<open>EncodeSettles\<close>.
\<close>

text \<open>A run applies the events in order, from the left.\<close>

fun run :: "runtime \<Rightarrow> event list \<Rightarrow> world \<Rightarrow> world" where
  "run rt [] w = w"
| "run rt (e # es) w = run rt es (step rt e w)"

text \<open>The events that install a new record.\<close>

fun creates_record :: "event \<Rightarrow> bool" where
  "creates_record (Select f now) = True"
| "creates_record e = False"






text \<open>
  Bookkeeping of object URLs along a run: every URL handed out is below the browser's counter,
  only URLs made from a blob are ever revoked, no URL is made both from a file and from a blob,
  and the preview URL of the record in \<^verbatim>\<open>data\<close> was made from that record's file.
\<close>

definition url_index :: "url \<Rightarrow> nat" where
  "url_index u = (case u of BlobUrl n \<Rightarrow> n)"

definition urls_ok :: "world \<Rightarrow> bool" where
  "urls_ok w \<longleftrightarrow>
     (\<forall>u s. CreateObjectURL u s \<in> set (trace w) \<longrightarrow> url_index u < next_url w) \<and>
     (\<forall>u. RevokeObjectURL u \<in> set (trace w) \<longrightarrow> (\<exists>b. CreateObjectURL u (OfBlob b) \<in> set (trace w))) \<and>
     (\<forall>u f b. CreateObjectURL u (OfFile f) \<in> set (trace w) \<longrightarrow> CreateObjectURL u (OfBlob b) \<notin> set (trace w)) \<and>
     (\<forall>d. data w = Some d \<longrightarrow> CreateObjectURL (previewUrl d) (OfFile (file' d)) \<in> set (trace w))"

section \<open>Sample inputs\<close>

text \<open>
  Concrete inputs for the closed theorems below. \<open>sample_parse\<close> gives the value of
  \<^verbatim>\<open>JSON.parse\<close> on the three well-formed texts used here and a \<^verbatim>\<open>SyntaxError\<close> on anything
  else; it is only ever applied to those three texts and to the malformed \<^verbatim>\<open><html>\<close>.
\<close>

definition text_cat :: string where
  \<open>text_cat = ''{"objects":["cat"],"peopleCount":0,"sceneType":"Indoor","imageCategory":"Photo","dominantColors":["#000000"],"faceEmotion":"None","isSafe":true,"authenticity":{"isLikelyEdited":false,"reason":"No artifacts","score":3},"ocrText":""}''\<close>

definition value_cat :: jsval where
  "value_cat =
     JObj [(''objects'', JArr [JStr ''cat'']),
           (''peopleCount'', JNum 0),
           (''sceneType'', JStr ''Indoor''),
           (''imageCategory'', JStr ''Photo''),
           (''dominantColors'', JArr [JStr ''#000000'']),
           (''faceEmotion'', JStr ''None''),
           (''isSafe'', JBool True),
           (''authenticity'',
              JObj [(''isLikelyEdited'', JBool False),
                    (''reason'', JStr ''No artifacts''),
                    (''score'', JNum 3)]),
           (''ocrText'', JStr '''')]"

definition sample_parse :: "string \<Rightarrow> exn + jsval" where
  "sample_parse s =
     (if s = text_cat then Inr value_cat
      else if s = ''{}'' then Inr (JObj [])
      else if s = ''null'' then Inr JNull
      else Inl (Foreign ''SyntaxError''))"

definition sample_rt :: runtime where
  "sample_rt = \<lparr> api_key = Some ''key'', json_parse = sample_parse,
                 date_toLocaleString = (\<lambda>v. ''1/1/2024, 12:00:00 AM'') \<rparr>"

definition no_key_rt :: runtime where
  "no_key_rt = sample_rt\<lparr>api_key := None\<rparr>"

definition fileA :: File where
  "fileA = File ''a.jpg''"

definition fileB :: File where
  "fileB = File ''b.jpg''"

definition data_url :: string where
  "data_url = ''data:image/jpeg;base64,AAAA''"

definition latitude_only :: exifr_output where
  "latitude_only = (\<lambda>k. if k = ''latitude'' then Some (JNum 37.7749) else None)"

text \<open>
  Record A is selected, its metadata and its encoding arrive, the user closes A and selects B
  while A's analysis call is still in flight.
\<close>

definition world_B_selected :: world where
  "world_B_selected =
     run sample_rt
       [Select fileA 1000,
        ExifSettles 0 (ParseReturns None),
        EncodeSettles 0 (ReaderOnLoad (Some data_url)),
        Discard,
        Select fileB 2000]
       init"


text \<open>Record A is selected and the privacy button is pressed.\<close>

definition world_cleaning :: world where
  "world_cleaning = run sample_rt [Select fileA 1000, PrivacyClean] init"

section \<open>Decimal printing is injective\<close>

lemma digit_val_digit_char: "d < 10 \<Longrightarrow> digit_val (digit_char d) = d"
  by (simp add: digit_val_def digit_char_def)

lemma dec_value_snoc: "dec_value (s @ [c]) = 10 * dec_value s + digit_val c"
  by (simp add: dec_value_def)

lemma dec_value_dec_digits: "dec_value (dec_digits n) = n"
proof (induction n rule: dec_digits.induct)
  case (1 n)
  show ?case
  proof (cases "n < 10")
    case True
    then show ?thesis
      by (subst dec_digits.simps) (simp add: dec_value_def digit_val_digit_char)
  next
    case False
    with 1 have "dec_value (dec_digits (n div 10)) = n div 10" by simp
    with False show ?thesis
      by (subst dec_digits.simps) (simp add: dec_value_snoc digit_val_digit_char)
  qed
qed

lemma dec_digits_inj: "dec_digits m = dec_digits n \<Longrightarrow> m = n"
  by (metis dec_value_dec_digits)

lemma digit_char_not_minus: "d < 10 \<Longrightarrow> digit_char d \<noteq> CHR ''-''"
proof
  assume d: "d < 10" and eq: "digit_char d = CHR ''-''"
  then have "(of_char (digit_char d) :: nat) = of_char (CHR ''-'')" by simp
  with d show False by (simp add: digit_char_def)
qed

lemma dec_digits_no_minus: "CHR ''-'' \<notin> set (dec_digits n)"
proof (induction n rule: dec_digits.induct)
  case (1 n)
  show ?case
  proof (cases "n < 10")
    case True
    then show ?thesis
      by (subst dec_digits.simps) (simp add: digit_char_not_minus [symmetric] del: One_nat_def)
  next
    case False
    with 1 have "CHR ''-'' \<notin> set (dec_digits (n div 10))" by simp
    moreover have "digit_char (n mod 10) \<noteq> CHR ''-''" by (rule digit_char_not_minus) simp
    ultimately show ?thesis using False
      by (subst dec_digits.simps) auto
  qed
qed

lemma toString_inj: "(toString a = toString b) = (a = b)"
proof
  assume eq: "toString a = toString b"
  have nm: "\<And>n m. CHR ''-'' # dec_digits n \<noteq> dec_digits m"
    using dec_digits_no_minus by (metis list.set_intros(1))
  show "a = b"
  proof (cases "a < 0"; cases "b < 0")
    assume "a < 0" "b < 0"
    with eq have "dec_digits (nat (- a)) = dec_digits (nat (- b))" by (simp add: toString_def)
    then have "nat (- a) = nat (- b)" by (rule dec_digits_inj)
    with \<open>a < 0\<close> \<open>b < 0\<close> show ?thesis by simp
  next
    assume "a < 0" "\<not> b < 0"
    with eq nm show ?thesis by (simp add: toString_def)
  next
    assume "\<not> a < 0" "b < 0"
    with eq nm [of "nat (- b)" "nat a"] show ?thesis by (simp add: toString_def)
  next
    assume "\<not> a < 0" "\<not> b < 0"
    with eq have "dec_digits (nat a) = dec_digits (nat b)" by (simp add: toString_def)
    then have "nat a = nat b" by (rule dec_digits_inj)
    with \<open>\<not> a < 0\<close> \<open>\<not> b < 0\<close> show ?thesis by simp
  qed
qed simp

section \<open>Facts about the services and about object URLs along a run\<close>

lemma analyze_returns: "\<exists>v. snd (analyzeImageWithGemini rt svc b) = Inr v"
  by (auto simp: analyzeImageWithGemini_def analyze_body_def try_catch_def Let_def
      split: sum.splits service_outcome.splits option.splits prod.splits)

lemma extract_returns: "\<exists>r. snd (extractExifData rt parsed) = Inr r"
  by (auto simp: extractExifData_def extract_body_def try_catch_def
      split: sum.splits exifr_outcome.splits option.splits prod.splits)

lemma analyze_no_url_effects:
  "CreateObjectURL u s \<notin> set (fst (analyzeImageWithGemini rt svc b))"
  "RevokeObjectURL u \<notin> set (fst (analyzeImageWithGemini rt svc b))"
  by (auto simp: analyzeImageWithGemini_def analyze_body_def try_catch_def Let_def
      split: sum.splits service_outcome.splits option.splits prod.splits if_splits)

lemma extract_no_url_effects:
  "CreateObjectURL u s \<notin> set (fst (extractExifData rt parsed))"
  "RevokeObjectURL u \<notin> set (fst (extractExifData rt parsed))"
  by (auto simp: extractExifData_def extract_body_def try_catch_def
      split: sum.splits exifr_outcome.splits option.splits prod.splits)

lemma urls_ok_init: "urls_ok init"
  by (simp add: urls_ok_def init_def)

lemma urls_ok_set_task: "urls_ok (set_task tid t w) = urls_ok w"
  by (simp add: urls_ok_def set_task_def)

lemma urls_ok_merge:
  "urls_ok w \<Longrightarrow> urls_ok (w\<lparr>data := merge_exif x (data w)\<rparr>)"
  "urls_ok w \<Longrightarrow> urls_ok (w\<lparr>data := merge_analysis y (data w)\<rparr>)"
  "urls_ok w \<Longrightarrow> urls_ok (w\<lparr>data := merge_error (data w)\<rparr>)"
  by (auto simp: urls_ok_def merge_exif_def merge_analysis_def merge_error_def split: option.splits)

lemma urls_ok_quiet:
  assumes "urls_ok w" "\<And>u s. CreateObjectURL u s \<notin> set fx" "\<And>u. RevokeObjectURL u \<notin> set fx"
  shows "urls_ok (w\<lparr>trace := trace w @ fx\<rparr>)"
  using assms by (auto simp: urls_ok_def)

lemma urls_ok_select_catch: "urls_ok w \<Longrightarrow> urls_ok (select_catch tid err w)"
proof -
  assume ok: "urls_ok w"
  have "urls_ok (w\<lparr>trace := trace w @ [ConsoleError None err]\<rparr>)"
    by (rule urls_ok_quiet [OF ok]) simp_all
  then have "urls_ok ((w\<lparr>trace := trace w @ [ConsoleError None err]\<rparr>)
       \<lparr>data := merge_error (data (w\<lparr>trace := trace w @ [ConsoleError None err]\<rparr>))\<rparr>)"
    by (rule urls_ok_merge)
  then show ?thesis by (simp add: select_catch_def urls_ok_set_task)
qed

lemma urls_ok_step: "urls_ok w \<Longrightarrow> urls_ok (step rt e w)"
proof (cases e)
  case (Select f now)
  assume "urls_ok w"
  then show ?thesis unfolding Select
    by (auto simp: urls_ok_def Let_def url_index_def less_Suc_eq dest: spec)
next
  case Discard
  assume "urls_ok w" then show ?thesis unfolding Discard by (simp add: urls_ok_def)
next
  case OpenCamera
  assume "urls_ok w" then show ?thesis unfolding OpenCamera by (simp add: urls_ok_def)
next
  case CloseCamera
  assume "urls_ok w" then show ?thesis unfolding CloseCamera by (simp add: urls_ok_def)
next
  case (ExifSettles tid parsed)
  assume ok: "urls_ok w"
  obtain fx r where ex: "extractExifData rt parsed = (fx, r)" by (cases "extractExifData rt parsed")
  have q: "urls_ok (w\<lparr>trace := trace w @ fx\<rparr>)"
    using extract_no_url_effects [where rt=rt and parsed=parsed] ex by (intro urls_ok_quiet [OF ok]) auto
  show ?thesis
  proof (cases "task_at w tid")
    case (AwaitExif f)
    show ?thesis
    proof (cases r)
      case (Inl err)
      with ex AwaitExif q show ?thesis unfolding ExifSettles
        by (simp add: urls_ok_select_catch)
    next
      case (Inr exifData)
      from q have "urls_ok ((w\<lparr>trace := trace w @ fx\<rparr>)\<lparr>data := merge_exif exifData (data (w\<lparr>trace := trace w @ fx\<rparr>))\<rparr>)"
        by (rule urls_ok_merge)
      with ex AwaitExif Inr show ?thesis unfolding ExifSettles
        by (simp add: urls_ok_set_task)
    qed
  qed (use ok in \<open>simp_all add: ExifSettles\<close>)
next
  case (EncodeSettles tid rd)
  assume ok: "urls_ok w"
  then show ?thesis unfolding EncodeSettles
    by (auto simp: urls_ok_select_catch urls_ok_set_task split: task.splits sum.splits)
next
  case (AnalyzeSettles tid svc)
  assume ok: "urls_ok w"
  show ?thesis
  proof (cases "task_at w tid")
    case (AwaitAnalyze b)
    obtain fx r where an: "analyzeImageWithGemini rt svc b = (fx, r)"
      by (cases "analyzeImageWithGemini rt svc b")
    have q: "urls_ok (w\<lparr>trace := trace w @ fx\<rparr>)"
      using analyze_no_url_effects [where rt=rt and svc=svc and b=b] an by (intro urls_ok_quiet [OF ok]) auto
    show ?thesis
    proof (cases r)
      case (Inl err)
      with an AwaitAnalyze q show ?thesis unfolding AnalyzeSettles
        by (simp add: urls_ok_select_catch)
    next
      case (Inr aiResult)
      from q have "urls_ok ((w\<lparr>trace := trace w @ fx\<rparr>)\<lparr>data := merge_analysis aiResult (data (w\<lparr>trace := trace w @ fx\<rparr>))\<rparr>)"
        by (rule urls_ok_merge)
      with an AwaitAnalyze Inr show ?thesis unfolding AnalyzeSettles
        by (simp add: urls_ok_set_task)
    qed
  qed (use ok in \<open>simp_all add: AnalyzeSettles\<close>)
next
  case PrivacyClean
  assume "urls_ok w" then show ?thesis unfolding PrivacyClean
    by (auto simp: urls_ok_def split: option.splits)
next
  case (CleanSettles tid img)
  assume ok: "urls_ok w"
  show ?thesis
  proof (cases "task_at w tid")
    case (AwaitClean imageUrl fileName)
    show ?thesis
    proof (cases "cleanImageMetadata imageUrl img")
      case (Inl e)
      have "urls_ok (w\<lparr>trace := trace w @ [Alert ''Failed to create clean image.'']\<rparr>)"
        by (rule urls_ok_quiet [OF ok]) simp_all
      with AwaitClean Inl show ?thesis unfolding CleanSettles by (simp add: urls_ok_set_task)
    next
      case (Inr blob)
      show ?thesis
      proof (cases blob)
        case None
        with AwaitClean Inr ok show ?thesis unfolding CleanSettles by (simp add: urls_ok_set_task)
      next
        case (Some b)
        have "urls_ok (w\<lparr> next_url := Suc (next_url w),
                       trace := trace w @ [CreateObjectURL (BlobUrl (next_url w)) (OfBlob b),
                                           DownloadClick (BlobUrl (next_url w)) (''clean_'' @ fileName),
                                           RevokeObjectURL (BlobUrl (next_url w))] \<rparr>)"
          using ok by (auto simp: urls_ok_def url_index_def less_Suc_eq dest: spec)
        with AwaitClean Inr Some show ?thesis unfolding CleanSettles
          by (simp add: urls_ok_set_task Let_def)
      qed
    qed
  qed (use ok in \<open>simp_all add: CleanSettles\<close>)
qed

lemma urls_ok_run: "urls_ok w \<Longrightarrow> urls_ok (run rt evs w)"
  by (induction evs arbitrary: w) (simp_all add: urls_ok_step)

lemma preview_not_revoked:
  assumes "urls_ok w" "CreateObjectURL u (OfFile f) \<in> set (trace w)"
  shows "count_list (trace w) (RevokeObjectURL u) = 0"
  using assms by (auto simp: urls_ok_def count_list_0_iff)

section \<open>Evaluation of the sample inputs\<close>

lemma toString_samples: "toString 1000 = ''1000''" "toString 2000 = ''2000''"
  by code_simp+

lemma encode_sample: "fileToBase64 (ReaderOnLoad (Some data_url)) = Inr (Some ''AAAA'')"
  by (simp add: fileToBase64_def data_url_def index_opt_def)

lemmas app_defs = task_at_def set_task_def select_catch_def merge_exif_def merge_analysis_def
  merge_error_def Let_def

lemmas sample_defs = init_def extractExifData_def extract_body_def try_catch_def
  analyzeImageWithGemini_def analyze_body_def getAiClient_def sample_rt_def sample_parse_def
  text_cat_def fileA_def fileB_def cleanImageMetadata_def

lemma world_B_selected_eq:
  "world_B_selected =
     \<lparr> data = Some \<lparr> id' = ''2000'', file' = fileB, previewUrl = BlobUrl 1, exif = None,
                      aiAnalysis = JNull, isProcessing = True, error = None \<rparr>,
       showCamera = False,
       tasks = [AwaitAnalyze (Some ''AAAA''), AwaitExif fileB],
       next_url = 2,
       trace = [CreateObjectURL (BlobUrl 0) (OfFile fileA), CreateObjectURL (BlobUrl 1) (OfFile fileB)] \<rparr>"
  by (simp add: world_B_selected_def app_defs sample_defs toString_samples encode_sample)

lemma world_cleaning_eq:
  "world_cleaning =
     \<lparr> data = Some \<lparr> id' = ''1000'', file' = fileA, previewUrl = BlobUrl 0, exif = None,
                      aiAnalysis = JNull, isProcessing = True, error = None \<rparr>,
       showCamera = False,
       tasks = [AwaitExif fileA, AwaitClean (BlobUrl 0) ''a.jpg''],
       next_url = 1,
       trace = [CreateObjectURL (BlobUrl 0) (OfFile fileA)] \<rparr>"
  by (simp add: world_cleaning_def app_defs sample_defs toString_samples)




lemmas ev = analyzeImageWithGemini_def analyze_body_def try_catch_def getAiClient_def
  sample_rt_def no_key_rt_def sample_parse_def text_cat_def value_cat_def fallback_def
  has_required_fields_def required_fields_def

section \<open>The steps of one run, seen from its record\<close>














section \<open>The claims of the specification\<close>

subsection \<open>C1: a result that arrives after its record was replaced\<close>

text \<open>
  Claim C1, as the specification states it: when record B is started while the analysis call
  of record A is still in flight, A's result is discarded when it arrives and never merged into
  B. It does not hold. In \<open>world_B_selected\<close> the active record is B (id \<open>2000\<close>) and task 0
  is A's pending analysis; when that call answers, B holds A's analysis and is marked as no
  longer processing, while B's own task still waits for its metadata.
\<close>

theorem stale_result_not_discarded_counterexample:
  "data (step sample_rt (AnalyzeSettles 0 (Responds (Some text_cat))) world_B_selected) =
     Some \<lparr> id' = ''2000'', file' = fileB, previewUrl = BlobUrl 1, exif = None,
            aiAnalysis = value_cat, isProcessing = False, error = None \<rparr> \<and>
   tasks (step sample_rt (AnalyzeSettles 0 (Responds (Some text_cat))) world_B_selected) =
     [Finished, AwaitExif fileB]"
  by (simp add: world_B_selected_eq app_defs sample_defs)

text \<open>
  Claim C1, amended: \<^verbatim>\<open>handleImageSelect\<close> compares no record ids. When the analysis call of a
  run answers, the functional update stores the result in whichever record is active at that
  moment and clears its processing flag; the result is dropped only when no record is active.
\<close>

theorem stale_result_merged_into_active_record:
  assumes "task_at w tid = AwaitAnalyze base64"
  shows "\<exists>aiResult. snd (analyzeImageWithGemini rt svc base64) = Inr aiResult \<and>
     data (step rt (AnalyzeSettles tid svc) w) =
       (case data w of
          None \<Rightarrow> None
        | Some p \<Rightarrow> Some (p\<lparr>aiAnalysis := aiResult, isProcessing := False\<rparr>))"
proof -
  obtain fx aiResult where an: "analyzeImageWithGemini rt svc base64 = (fx, Inr aiResult)"
    using analyze_returns [of rt svc base64]
    by (cases "analyzeImageWithGemini rt svc base64") auto
  with assms have "data (step rt (AnalyzeSettles tid svc) w) = merge_analysis aiResult (data w)"
    by (simp add: set_task_def)
  with an show ?thesis by (auto simp: merge_analysis_def)
qed

text \<open>
  Claim C1, amended, at a concrete input: A's call fails while B is active, and B receives
  the fallback record.
\<close>

theorem stale_result_merged_into_active_record_witness:
  "task_at world_B_selected 0 = AwaitAnalyze (Some ''AAAA'') \<and>
   map_option id' (data world_B_selected) = Some ''2000'' \<and>
   map_option id' (data (step sample_rt (AnalyzeSettles 0 (Rejects (Foreign ''NetworkError''))) world_B_selected)) = Some ''2000'' \<and>
   map_option aiAnalysis (data (step sample_rt (AnalyzeSettles 0 (Rejects (Foreign ''NetworkError''))) world_B_selected)) = Some fallback"
  using stale_result_merged_into_active_record [of world_B_selected 0 "Some ''AAAA''" sample_rt "Rejects (Foreign ''NetworkError'')"]
  by (simp add: world_B_selected_eq app_defs sample_defs)

subsection \<open>C2: what happens to the text of a response\<close>

text \<open>
  Claim C2, as the specification states it: the response text is parsed and validated, and a
  parsed value that lacks a required field is replaced by the fallback record. It does not
  hold: the text \<^verbatim>\<open>{}\<close> parses to the empty object, which has none of the required fields and is
  what the operation returns.
\<close>

theorem missing_fields_returned_counterexample:
  "\<not> has_required_fields (JObj []) \<and>
   snd (analyzeImageWithGemini sample_rt (Responds (Some ''{}'')) (Some ''AAAA'')) = Inr (JObj []) \<and>
   JObj [] \<noteq> fallback"
  by (simp add: ev)

text \<open>
  Claim C2, amended: with a credential configured, a response without text (\<^verbatim>\<open>undefined\<close> or
  the empty string) or with a text on which \<^verbatim>\<open>JSON.parse\<close> throws gives the fallback record;
  every other response gives the parsed value as it is, whether or not the required fields are
  there.
\<close>

theorem response_parsed_without_shape_check:
  assumes "getAiClient rt = Inr ai"
  shows "snd (analyzeImageWithGemini rt (Responds text) base64Image) =
     (case text of
        None \<Rightarrow> Inr fallback
      | Some t \<Rightarrow>
          if t = [] then Inr fallback
          else (case json_parse rt t of Inl e \<Rightarrow> Inr fallback | Inr v \<Rightarrow> Inr v))"
  using assms
  by (simp add: analyzeImageWithGemini_def analyze_body_def try_catch_def Let_def
      split: sum.splits option.splits)

text \<open>
  Claim C2, amended, at a concrete input: a complete response is returned as parsed.
\<close>

theorem response_parsed_without_shape_check_witness:
  "getAiClient sample_rt = Inr (GoogleGenAI ''key'') \<and>
   has_required_fields value_cat \<and>
   snd (analyzeImageWithGemini sample_rt (Responds (Some text_cat)) (Some ''AAAA'')) = Inr value_cat"
  using response_parsed_without_shape_check [of sample_rt "GoogleGenAI ''key''" "Some text_cat" "Some ''AAAA''"]
  by (simp add: ev)

subsection \<open>C3: the analysis never fails outward\<close>

text \<open>
  Claim C3, as the specification states it: the analysis always returns a record, and on a
  missing credential, a network failure, an empty response, a parse failure or an invalid shape
  that record is the fallback record. The last case does not hold: the text \<^verbatim>\<open>null\<close> parses to
  \<^verbatim>\<open>null\<close>, which is not a record of the expected shape and is returned as it is.
\<close>

theorem invalid_shape_not_fallback_counterexample:
  "snd (analyzeImageWithGemini sample_rt (Responds (Some ''null'')) (Some ''AAAA'')) = Inr JNull \<and>
   \<not> has_required_fields JNull \<and> JNull \<noteq> fallback"
  by (simp add: ev)

text \<open>
  Claim C3, amended: \<^verbatim>\<open>analyzeImageWithGemini\<close> never throws, it always returns a value; on a
  missing or empty credential, a rejected request, a response without text or with empty text,
  and a text that \<^verbatim>\<open>JSON.parse\<close> rejects, the value returned is exactly the fallback record.
\<close>

theorem analysis_never_fails_outward:
  "(\<exists>v. snd (analyzeImageWithGemini rt svc b) = Inr v) \<and>
   (api_key rt = None \<or> api_key rt = Some [] \<longrightarrow> snd (analyzeImageWithGemini rt svc b) = Inr fallback) \<and>
   snd (analyzeImageWithGemini rt (Rejects e) b) = Inr fallback \<and>
   snd (analyzeImageWithGemini rt (Responds None) b) = Inr fallback \<and>
   snd (analyzeImageWithGemini rt (Responds (Some [])) b) = Inr fallback \<and>
   (json_parse rt t = Inl e' \<longrightarrow> snd (analyzeImageWithGemini rt (Responds (Some t)) b) = Inr fallback)"
proof (intro conjI impI)
  show "\<exists>v. snd (analyzeImageWithGemini rt svc b) = Inr v" by (rule analyze_returns)
next
  assume "api_key rt = None \<or> api_key rt = Some []"
  then show "snd (analyzeImageWithGemini rt svc b) = Inr fallback"
    by (auto simp: analyzeImageWithGemini_def analyze_body_def try_catch_def getAiClient_def)
next
  show "snd (analyzeImageWithGemini rt (Rejects e) b) = Inr fallback"
    by (simp add: analyzeImageWithGemini_def analyze_body_def try_catch_def Let_def split: sum.splits)
next
  show "snd (analyzeImageWithGemini rt (Responds None) b) = Inr fallback"
    by (simp add: analyzeImageWithGemini_def analyze_body_def try_catch_def Let_def split: sum.splits)
next
  show "snd (analyzeImageWithGemini rt (Responds (Some [])) b) = Inr fallback"
    by (simp add: analyzeImageWithGemini_def analyze_body_def try_catch_def Let_def split: sum.splits)
next
  assume "json_parse rt t = Inl e'"
  then show "snd (analyzeImageWithGemini rt (Responds (Some t)) b) = Inr fallback"
    by (simp add: analyzeImageWithGemini_def analyze_body_def try_catch_def Let_def split: sum.splits)
qed

text \<open>
  Claim C3, amended, at concrete inputs: no credential, and a malformed response text.
\<close>

theorem analysis_never_fails_outward_witness:
  "api_key no_key_rt = None \<and>
   snd (analyzeImageWithGemini no_key_rt (Responds (Some text_cat)) (Some ''AAAA'')) = Inr fallback \<and>
   json_parse sample_rt ''<html>'' = Inl (Foreign ''SyntaxError'') \<and>
   snd (analyzeImageWithGemini sample_rt (Responds (Some ''<html>'')) (Some ''AAAA'')) = Inr fallback"
  using analysis_never_fails_outward [of no_key_rt "Responds (Some text_cat)" "Some ''AAAA''"]
        analysis_never_fails_outward [of sample_rt _ "Some ''AAAA''" _ "''<html>''" "Foreign ''SyntaxError''"]
  by (simp add: no_key_rt_def sample_rt_def sample_parse_def text_cat_def)

subsection \<open>C4: geolocation in the extracted metadata\<close>

text \<open>
  Claim C4, as the specification states it: extraction surfaces latitude if and only if it
  surfaces longitude, and surfaces neither when only one is there. \<^verbatim>\<open>extractExifData\<close> does not
  pair them: given a parser output with only \<^verbatim>\<open>latitude\<close>, it returns a record with latitude
  and without longitude.
\<close>

theorem latitude_without_longitude_counterexample:
  "(case snd (extractExifData sample_rt (ParseReturns (Some latitude_only))) of
      Inr (Some r) \<Rightarrow> latitude r = Some (JNum 37.7749) \<and> longitude r = None
    | _ \<Rightarrow> False)"
  by (simp add: extractExifData_def extract_body_def try_catch_def latitude_only_def)

text \<open>
  Claim C4, amended: \<^verbatim>\<open>extractExifData\<close> copies \<^verbatim>\<open>latitude\<close> and \<^verbatim>\<open>longitude\<close> from the parser's
  output, each on its own. So the two are paired in the result exactly when they are paired in
  the parser's output, both are absent when the parser reports neither, and there is no record
  at all when the parser returns nothing.
\<close>

theorem geolocation_copied_from_parser_output:
  "(\<exists>r. snd (extractExifData rt (ParseReturns (Some output))) = Inr (Some r) \<and>
       latitude r = output ''latitude'' \<and> longitude r = output ''longitude'' \<and>
       ((latitude r = None) = (longitude r = None)) =
         ((output ''latitude'' = None) = (output ''longitude'' = None))) \<and>
   snd (extractExifData rt (ParseReturns None)) = Inr None"
  by (simp add: extractExifData_def extract_body_def try_catch_def)

subsection \<open>C5: release of the preview URL\<close>

text \<open>
  Claim C5, as the specification states it: the preview URL of a record is released exactly
  once, when the record is superseded or discarded. It does not hold: record A is created with
  preview URL 0, discarded and superseded by B, and URL 0 has been revoked zero times.
\<close>

theorem preview_url_not_released_counterexample:
  "map_option previewUrl (data (run sample_rt [Select fileA 1000] init)) = Some (BlobUrl 0) \<and>
   data (run sample_rt [Select fileA 1000, Discard] init) = None \<and>
   map_option previewUrl (data (run sample_rt [Select fileA 1000, Discard, Select fileB 2000] init)) = Some (BlobUrl 1) \<and>
   count_list (trace (run sample_rt [Select fileA 1000, Discard, Select fileB 2000] init))
     (RevokeObjectURL (BlobUrl 0)) = 0"
  by (simp add: app_defs sample_defs toString_samples)

text \<open>
  Claim C5, amended: the application never releases a preview URL. Along every run from the
  initial state, a URL created from a selected file is revoked zero times, the preview URL of
  the active record is such a URL, and neither discarding a record nor selecting a new file
  revokes anything. (The only URL ever revoked is the download URL of \<^verbatim>\<open>handlePrivacyClean\<close>.)
\<close>

theorem preview_url_never_revoked:
  "(\<forall>u f. CreateObjectURL u (OfFile f) \<in> set (trace (run rt evs init)) \<longrightarrow>
      count_list (trace (run rt evs init)) (RevokeObjectURL u) = 0) \<and>
   (\<forall>d. data (run rt evs init) = Some d \<longrightarrow>
      CreateObjectURL (previewUrl d) (OfFile (file' d)) \<in> set (trace (run rt evs init))) \<and>
   trace (step rt Discard w) = trace w \<and>
   trace (step rt (Select f' now) w) = trace w @ [CreateObjectURL (BlobUrl (next_url w)) (OfFile f')]"
proof -
  have ok: "urls_ok (run rt evs init)" by (rule urls_ok_run [OF urls_ok_init])
  then have "\<forall>d. data (run rt evs init) = Some d \<longrightarrow>
      CreateObjectURL (previewUrl d) (OfFile (file' d)) \<in> set (trace (run rt evs init))"
    by (simp add: urls_ok_def)
  moreover have "trace (step rt Discard w) = trace w" by simp
  moreover have "trace (step rt (Select f' now) w) = trace w @ [CreateObjectURL (BlobUrl (next_url w)) (OfFile f')]"
    by (simp add: Let_def)
  ultimately show ?thesis using preview_not_revoked [OF ok] by blast
qed

text \<open>
  Claim C5, amended, at a concrete run: the preview URL 0 is never revoked, while the download
  URL 1 of the privacy-clean handler is revoked once.
\<close>

theorem preview_url_never_revoked_witness:
  "CreateObjectURL (BlobUrl 0) (OfFile fileA)
     \<in> set (trace (run sample_rt [Select fileA 1000, PrivacyClean, CleanSettles 1 (ImgOnLoad True (Some [255, 216])), Discard] init)) \<and>
   count_list (trace (run sample_rt [Select fileA 1000, PrivacyClean, CleanSettles 1 (ImgOnLoad True (Some [255, 216])), Discard] init))
     (RevokeObjectURL (BlobUrl 0)) = 0 \<and>
   count_list (trace (run sample_rt [Select fileA 1000, PrivacyClean, CleanSettles 1 (ImgOnLoad True (Some [255, 216])), Discard] init))
     (RevokeObjectURL (BlobUrl 1)) = 1"
  using preview_url_never_revoked [of sample_rt "[Select fileA 1000, PrivacyClean, CleanSettles 1 (ImgOnLoad True (Some [255, 216])), Discard]"]
  by (simp add: app_defs sample_defs toString_samples)

subsection \<open>C6: when a missing credential is detected\<close>

text \<open>
  Claim C6, as the specification states it: a missing credential is raised when the client is
  constructed, not at call time, and a call never observes it. It does not hold: the client is
  constructed inside every call, so the call itself raises the fault, logs it and answers with
  the fallback record.
\<close>

theorem missing_credential_at_call_time_counterexample:
  "ConsoleError (Some ''Gemini Analysis Error:'') (Error ''API Key not found in environment variables'')
     \<in> set (fst (analyzeImageWithGemini no_key_rt (Responds (Some text_cat)) (Some ''AAAA''))) \<and>
   snd (analyzeImageWithGemini no_key_rt (Responds (Some text_cat)) (Some ''AAAA'')) = Inr fallback"
  by (simp add: analyzeImageWithGemini_def analyze_body_def try_catch_def getAiClient_def
      no_key_rt_def sample_rt_def)

text \<open>
  Claim C6, amended: constructing the client without a credential (\<^verbatim>\<open>undefined\<close> or empty)
  throws. \<^verbatim>\<open>analyzeImageWithGemini\<close> constructs the client anew in each call, so the fault is
  raised during the call, before any request is sent; the call catches it, logs it and returns
  the fallback record.
\<close>

theorem missing_credential_raised_in_each_call:
  assumes "api_key rt = None \<or> api_key rt = Some []"
  shows "getAiClient rt = Inl (Error ''API Key not found in environment variables'') \<and>
         analyzeImageWithGemini rt svc b =
           ([ConsoleError (Some ''Gemini Analysis Error:'')
               (Error ''API Key not found in environment variables'')],
            Inr fallback)"
  using assms by (auto simp: analyzeImageWithGemini_def analyze_body_def try_catch_def getAiClient_def)

text \<open>
  Claim C6, amended, at a concrete input.
\<close>

theorem missing_credential_raised_in_each_call_witness:
  "(api_key no_key_rt = None \<or> api_key no_key_rt = Some []) \<and>
   getAiClient no_key_rt = Inl (Error ''API Key not found in environment variables'') \<and>
   analyzeImageWithGemini no_key_rt (Rejects (Foreign ''NetworkError'')) (Some ''AAAA'') =
     ([ConsoleError (Some ''Gemini Analysis Error:'')
         (Error ''API Key not found in environment variables'')],
      Inr fallback)"
  using missing_credential_raised_in_each_call [of no_key_rt "Rejects (Foreign ''NetworkError'')" "Some ''AAAA''"]
  by (simp add: no_key_rt_def sample_rt_def)

subsection \<open>C7: the degraded state\<close>




subsection \<open>C8: metadata extraction never raises\<close>

text \<open>
  Claim C8: \<^verbatim>\<open>extractExifData\<close> returns for every outcome of the parser, and when the parser
  throws, the failure is logged and the result is absent (\<^verbatim>\<open>null\<close>).
\<close>

theorem extractExifData_never_raises:
  "(\<exists>r. snd (extractExifData rt parsed) = Inr r) \<and>
   extractExifData rt (ParseThrows e) = ([ConsoleError (Some ''Failed to extract EXIF'') e], Inr None)"
  using extract_returns [of rt parsed]
  by (simp add: extractExifData_def extract_body_def try_catch_def)

subsection \<open>C9: record ids\<close>

text \<open>
  Claim C9, as the specification states it: two distinct record creations get distinct ids.
  It does not hold: the id is the clock reading, and two creations at the same reading (here
  for two different files) get the same id.
\<close>

theorem same_clock_same_id_counterexample:
  "map_option id' (data (run sample_rt [Select fileA 1000] init)) = Some ''1000'' \<and>
   map_option id' (data (run sample_rt [Select fileA 1000, Discard, Select fileB 1000] init)) = Some ''1000'' \<and>
   map_option file' (data (run sample_rt [Select fileA 1000] init)) = Some fileA \<and>
   map_option file' (data (run sample_rt [Select fileA 1000, Discard, Select fileB 1000] init)) = Some fileB \<and>
   fileA \<noteq> fileB"
  by (simp add: app_defs sample_defs toString_samples)

text \<open>
  Claim C9, amended: the id of a new record is the decimal rendering of \<^verbatim>\<open>Date.now()\<close> at
  creation, so two creations have distinct ids exactly when their clock readings differ; and no
  step other than creating a record or discarding it changes the id of the active record.
\<close>

theorem id_is_clock_reading:
  "map_option id' (data (step rt (Select f now) w)) = Some (toString now) \<and>
   (toString now1 = toString now2) = (now1 = now2) \<and>
   (\<not> creates_record e \<and> e \<noteq> Discard \<longrightarrow>
      map_option id' (data (step rt e w)) = map_option id' (data w))"
proof (intro conjI impI)
  show "map_option id' (data (step rt (Select f now) w)) = Some (toString now)"
    by (simp add: Let_def)
  show "(toString now1 = toString now2) = (now1 = now2)" by (rule toString_inj)
  assume "\<not> creates_record e \<and> e \<noteq> Discard"
  then show "map_option id' (data (step rt e w)) = map_option id' (data w)"
    by (cases e)
       (auto simp: app_defs split: task.splits sum.splits prod.splits option.splits)
qed

text \<open>
  Claim C9, amended, at a concrete input: a failed encode step leaves the id as it was.
\<close>

theorem id_is_clock_reading_witness:
  "\<not> creates_record (EncodeSettles 0 (ReaderOnError (Foreign ''NotReadableError''))) \<and>
   EncodeSettles 0 (ReaderOnError (Foreign ''NotReadableError'')) \<noteq> Discard \<and>
   map_option id' (data (run sample_rt [Select fileA 1000, ExifSettles 0 (ParseReturns None)] init)) = Some ''1000'' \<and>
   map_option id' (data (step sample_rt (EncodeSettles 0 (ReaderOnError (Foreign ''NotReadableError'')))
       (run sample_rt [Select fileA 1000, ExifSettles 0 (ParseReturns None)] init))) = Some ''1000''"
  using id_is_clock_reading [where rt = sample_rt and e = "EncodeSettles 0 (ReaderOnError (Foreign ''NotReadableError''))"
       and w = "run sample_rt [Select fileA 1000, ExifSettles 0 (ParseReturns None)] init"]
  by (simp add: app_defs sample_defs toString_samples)

subsection \<open>C10: an empty result of the sanitizer\<close>

text \<open>
  Claim C10: when \<^verbatim>\<open>toBlob\<close> hands over \<^verbatim>\<open>null\<close>, \<^verbatim>\<open>cleanImageMetadata\<close> resolves with
  \<^verbatim>\<open>null\<close> instead of rejecting, and \<^verbatim>\<open>handlePrivacyClean\<close> then does nothing: no URL is
  created, no download is triggered, no alert is shown. The alert is shown exactly when
  \<^verbatim>\<open>cleanImageMetadata\<close> rejects.
\<close>

theorem null_blob_resolves_and_handler_is_silent:
  "cleanImageMetadata u (ImgOnLoad True None) = Inr None \<and>
   (task_at w tid = AwaitClean u nm \<longrightarrow>
      trace (step rt (CleanSettles tid (ImgOnLoad True None)) w) = trace w \<and>
      next_url (step rt (CleanSettles tid (ImgOnLoad True None)) w) = next_url w \<and>
      data (step rt (CleanSettles tid (ImgOnLoad True None)) w) = data w \<and>
      task_at (step rt (CleanSettles tid (ImgOnLoad True None)) w) tid = Finished) \<and>
   (task_at w tid = AwaitClean u nm \<longrightarrow>
      (Alert ''Failed to create clean image.'' \<in> set (drop (length (trace w)) (trace (step rt (CleanSettles tid img) w))))
        = isl (cleanImageMetadata u img))"
  by (auto simp: cleanImageMetadata_def app_defs split: image_outcome.splits option.splits if_splits task.splits)

text \<open>
  Claim C10 at a concrete input: with a null blob the trace stays as it was; without a canvas
  context the alert is shown.
\<close>

theorem null_blob_resolves_and_handler_is_silent_witness:
  "task_at world_cleaning 1 = AwaitClean (BlobUrl 0) ''a.jpg'' \<and>
   trace (step sample_rt (CleanSettles 1 (ImgOnLoad True None)) world_cleaning) =
     [CreateObjectURL (BlobUrl 0) (OfFile fileA)] \<and>
   trace (step sample_rt (CleanSettles 1 (ImgOnLoad False None)) world_cleaning) =
     [CreateObjectURL (BlobUrl 0) (OfFile fileA), Alert ''Failed to create clean image.'']"
  using null_blob_resolves_and_handler_is_silent [of "BlobUrl 0" world_cleaning 1 "''a.jpg''" sample_rt "ImgOnLoad False None"]
  by (simp add: world_cleaning_eq app_defs sample_defs)

end
